theory Spec2Isabelle
  imports Main "HOL-Library.Word"
begin

section \<open>The pod-translation and lifecycle adapter of the Poc provider\<close>

text \<open>
  A shallow embedding of package \<open>poc\<close> (the provider file with \<open>TranslateToRemotePod\<close>,
  \<open>UpdatePod\<close>, \<open>DeletePod\<close>, \<open>GetPod\<close>, \<open>GetPodStatus\<close>, \<open>GetPods\<close> and \<open>Capacity\<close>).

  Conventions of the embedding:
  \<^item> a Go struct is a record, with the Go field names; the field \<open>Name\<close> exists both in
    \<open>ObjectMeta\<close> and in \<open>Container\<close> and is written qualified;
  \<^item> a Go pointer \<open>*T\<close> that the code only passes on or dereferences is a \<open>T option\<close>
    (\<open>None\<close> is \<open>nil\<close>); dereferencing \<open>nil\<close> is the panic \<open>nil_pointer_dereference\<close>;
  \<^item> only in \<open>GetPods\<close>, where the address of a variable is taken and stored, pointers are
    addresses into an explicit heap;
  \<^item> a slice is a list and a Go map is a partial function; a nil slice and an empty slice
    are both \<open>[]\<close>, a nil map and an empty map are both \<open>Map.empty\<close> (the code only reads
    lengths, ranges over them or passes them on);
  \<^item> the Go \<open>error\<close> interface is the datatype \<open>error\<close>, a nil error is \<open>None\<close>;
  \<^item> the package variable \<open>rc\<close> (the remote client, an interface value) is a record of
    functions over a state \<open>'w\<close> of the remote cluster, which every call threads through;
  \<^item> the calls to \<open>log.Printf\<close> and the unused \<open>ctx\<close> parameters are left out.
\<close>

subsection \<open>Quantities (k8s.io/apimachinery/pkg/api/resource)\<close>

datatype panic = nil_pointer_dereference | quantity_parse_failure

datatype Format = DecimalSI | BinarySI

record Quantity =
  q_value :: int
  q_format :: Format

definition digit_val :: "char \<Rightarrow> nat option" where
  "digit_val c = map_of
     [(CHR ''0'', 0), (CHR ''1'', 1), (CHR ''2'', 2), (CHR ''3'', 3), (CHR ''4'', 4),
      (CHR ''5'', 5), (CHR ''6'', 6), (CHR ''7'', 7), (CHR ''8'', 8), (CHR ''9'', 9)] c"

fun parse_digits :: "nat \<Rightarrow> nat \<Rightarrow> string \<Rightarrow> nat \<times> nat \<times> string" where
  "parse_digits n acc [] = (n, acc, [])"
| "parse_digits n acc (c # cs) =
     (case digit_val c of
        None \<Rightarrow> (n, acc, c # cs)
      | Some d \<Rightarrow> parse_digits (Suc n) (10 * acc + d) cs)"

definition suffix_scale :: "string \<Rightarrow> (int \<times> Format) option" where
  "suffix_scale s = map_of
     [('''', (1, DecimalSI)),
      (''k'', (10 ^ 3, DecimalSI)), (''M'', (10 ^ 6, DecimalSI)), (''G'', (10 ^ 9, DecimalSI)),
      (''T'', (10 ^ 12, DecimalSI)), (''P'', (10 ^ 15, DecimalSI)), (''E'', (10 ^ 18, DecimalSI)),
      (''Ki'', (2 ^ 10, BinarySI)), (''Mi'', (2 ^ 20, BinarySI)), (''Gi'', (2 ^ 30, BinarySI)),
      (''Ti'', (2 ^ 40, BinarySI)), (''Pi'', (2 ^ 50, BinarySI)), (''Ei'', (2 ^ 60, BinarySI))] s"

text \<open>
  \<open>resource.MustParse\<close> belongs to the Kubernetes library, not to this repository. The
  fragment of its grammar modelled here is an unsigned decimal integer followed by an
  optional decimal or binary SI suffix, which covers the three literals that \<open>Capacity\<close>
  passes; the value is kept in base units. The library panics on text it cannot parse; text
  outside the fragment is mapped to the same outcome.
\<close>

definition MustParse :: "string \<Rightarrow> panic + Quantity" where
  "MustParse s =
     (case parse_digits 0 0 s of
        (n, v, suffix) \<Rightarrow>
          if n = 0 then Inl quantity_parse_failure
          else (case suffix_scale suffix of
                  None \<Rightarrow> Inl quantity_parse_failure
                | Some (k, f) \<Rightarrow> Inr \<lparr>q_value = int v * k, q_format = f\<rparr>))"

type_synonym ResourceList = "string \<rightharpoonup> Quantity"

subsection \<open>Pods (k8s.io/api/core/v1 and apimachinery/pkg/apis/meta/v1)\<close>

text \<open>
  The Kubernetes types are library types. \<open>Container\<close> is modelled with all its fields,
  since the translation is a whitelist over them; of the other structs the fields the
  adapter touches are modelled together with enough of the rest to tell a copied struct
  from a rebuilt one.
\<close>

record TypeMeta =
  Kind :: string
  APIVersion :: string

record ObjectMeta =
  Name :: string
  GenerateName :: string
  Namespace :: string
  SelfLink :: string
  UID :: string
  ResourceVersion :: string
  Generation :: "64 word"
  DeletionGracePeriodSeconds :: "64 word option"
  Labels :: "string \<rightharpoonup> string"
  Annotations :: "string \<rightharpoonup> string"
  Finalizers :: "string list"
  ClusterName :: string

record ResourceRequirements =
  Limits :: ResourceList
  Requests :: ResourceList

record ContainerPort =
  port_Name :: string
  HostPort :: "32 word"
  port_ContainerPort :: "32 word"
  Protocol :: string
  port_HostIP :: string

record EnvVar =
  env_Name :: string
  env_Value :: string
  env_ValueFrom :: "string option"

record VolumeMount =
  mount_Name :: string
  ReadOnly :: bool
  MountPath :: string
  SubPath :: string

record VolumeDevice =
  device_Name :: string
  DevicePath :: string

record Probe =
  probe_Handler :: string
  InitialDelaySeconds :: "32 word"
  TimeoutSeconds :: "32 word"
  PeriodSeconds :: "32 word"

record Lifecycle =
  PostStart :: "string option"
  PreStop :: "string option"

record SecurityContext =
  Privileged :: "bool option"
  RunAsUser :: "64 word option"
  RunAsNonRoot :: "bool option"
  ReadOnlyRootFilesystem :: "bool option"

record Container =
  Name :: string
  Image :: string
  Command :: "string list"
  Args :: "string list"
  WorkingDir :: string
  Ports :: "ContainerPort list"
  EnvFrom :: "string list"
  Env :: "EnvVar list"
  Resources :: ResourceRequirements
  VolumeMounts :: "VolumeMount list"
  VolumeDevices :: "VolumeDevice list"
  LivenessProbe :: "Probe option"
  ReadinessProbe :: "Probe option"
  Lifecycle :: "Lifecycle option"
  TerminationMessagePath :: string
  TerminationMessagePolicy :: string
  ImagePullPolicy :: string
  SecurityContext :: "SecurityContext option"
  Stdin :: bool
  StdinOnce :: bool
  TTY :: bool

record Volume =
  vol_Name :: string
  VolumeSource :: string

record PodSpec =
  Volumes :: "Volume list"
  InitContainers :: "Container list"
  Containers :: "Container list"
  RestartPolicy :: string
  TerminationGracePeriodSeconds :: "64 word option"
  ActiveDeadlineSeconds :: "64 word option"
  DNSPolicy :: string
  NodeSelector :: "string \<rightharpoonup> string"
  ServiceAccountName :: string
  NodeName :: string
  HostNetwork :: bool
  Hostname :: string
  SchedulerName :: string

record PodCondition =
  cond_Type :: string
  cond_Status :: string

record PodStatus =
  Phase :: string
  Conditions :: "PodCondition list"
  Message :: string
  Reason :: string
  HostIP :: string
  PodIP :: string
  QOSClass :: string

record Pod =
  TypeMeta :: TypeMeta
  ObjectMeta :: ObjectMeta
  Spec :: PodSpec
  Status :: PodStatus

record PodList =
  list_ResourceVersion :: string
  Items :: "Pod list"

record GetOptions =
  get_ResourceVersion :: string

record ListOptions =
  LabelSelector :: string
  FieldSelector :: string
  Watch :: bool
  list_opt_ResourceVersion :: string
  list_opt_TimeoutSeconds :: "64 word option"
  Limit :: "64 word"
  Continue :: string

record DeleteOptions =
  GracePeriodSeconds :: "64 word option"
  Preconditions :: "string option"
  OrphanDependents :: "bool option"
  PropagationPolicy :: "string option"

text \<open>The phase constant \<open>corev1.PodUnknown\<close>.\<close>

definition PodUnknown :: string where
  "PodUnknown = ''Unknown''"

text \<open>The zero values of the structs: what a Go composite literal gives every field it
  does not list.\<close>

definition zero_TypeMeta :: TypeMeta where
  "zero_TypeMeta = \<lparr>Kind = [], APIVersion = []\<rparr>"

definition zero_ObjectMeta :: ObjectMeta where
  "zero_ObjectMeta =
     \<lparr>ObjectMeta.Name = [], GenerateName = [], Namespace = [], SelfLink = [], UID = [],
      ResourceVersion = [], Generation = 0, DeletionGracePeriodSeconds = None,
      Labels = Map.empty, Annotations = Map.empty, Finalizers = [], ClusterName = []\<rparr>"

definition zero_ResourceRequirements :: ResourceRequirements where
  "zero_ResourceRequirements = \<lparr>Limits = Map.empty, Requests = Map.empty\<rparr>"

definition zero_Container :: Container where
  "zero_Container =
     \<lparr>Container.Name = [], Image = [], Command = [], Args = [], WorkingDir = [], Ports = [],
      EnvFrom = [], Env = [], Resources = zero_ResourceRequirements, VolumeMounts = [],
      VolumeDevices = [], LivenessProbe = None, ReadinessProbe = None, Lifecycle = None,
      TerminationMessagePath = [], TerminationMessagePolicy = [], ImagePullPolicy = [],
      SecurityContext = None, Stdin = False, StdinOnce = False, TTY = False\<rparr>"

definition zero_PodSpec :: PodSpec where
  "zero_PodSpec =
     \<lparr>Volumes = [], InitContainers = [], Containers = [], RestartPolicy = [],
      TerminationGracePeriodSeconds = None, ActiveDeadlineSeconds = None, DNSPolicy = [],
      NodeSelector = Map.empty, ServiceAccountName = [], NodeName = [], HostNetwork = False,
      Hostname = [], SchedulerName = []\<rparr>"

definition zero_PodStatus :: PodStatus where
  "zero_PodStatus =
     \<lparr>Phase = [], Conditions = [], Message = [], Reason = [], HostIP = [], PodIP = [],
      QOSClass = []\<rparr>"

definition zero_Pod :: Pod where
  "zero_Pod =
     \<lparr>TypeMeta = zero_TypeMeta, ObjectMeta = zero_ObjectMeta, Spec = zero_PodSpec,
      Status = zero_PodStatus\<rparr>"

definition zero_GetOptions :: GetOptions where
  "zero_GetOptions = \<lparr>get_ResourceVersion = []\<rparr>"

definition zero_ListOptions :: ListOptions where
  "zero_ListOptions =
     \<lparr>LabelSelector = [], FieldSelector = [], Watch = False, list_opt_ResourceVersion = [],
      list_opt_TimeoutSeconds = None, Limit = 0, Continue = []\<rparr>"

definition zero_DeleteOptions :: DeleteOptions where
  "zero_DeleteOptions =
     \<lparr>GracePeriodSeconds = None, Preconditions = None, OrphanDependents = None,
      PropagationPolicy = None\<rparr>"

subsection \<open>Errors\<close>

text \<open>
  The values of the Go \<open>error\<close> interface that occur: a status error of the remote API
  with its reason and message (\<open>StatusError ''NotFound'' m\<close> is what a lookup of an absent
  pod gives), any other failure of the client (network, authorization set-up), the error
  that \<open>errdefs.NotFoundf\<close> builds, and the package's \<open>errNotImplemented\<close>.
\<close>

datatype error =
    StatusError string string
  | ClientError string
  | notFoundError string
  | errNotImplemented

text \<open>
  Modelled from the spec: package \<open>errdefs\<close> of the repository (\<open>NotFoundf\<close> and the test
  \<open>IsNotFound\<close>) is not among the sources. The spec calls what \<open>GetPod\<close> signals a semantic
  NotFound error kind that callers can tell from other failures: \<open>NotFoundf\<close> builds an error
  of that kind carrying the formatted message, and \<open>IsNotFound\<close> recognises the kind.
\<close>

definition NotFoundf_pod :: "string \<Rightarrow> string \<Rightarrow> error" where
  "NotFoundf_pod namespace name = notFoundError (''pod '' @ namespace @ ''/'' @ name @ '' is not found'')"


subsection \<open>The remote client\<close>

text \<open>
  \<open>rc.CoreV1().Pods(namespace)\<close> with its five methods; the first argument of each field
  is the namespace. The state \<open>'w\<close> is the remote cluster as the client sees it.
\<close>

record 'w Interface =
  Pods_Get :: "string \<Rightarrow> string \<Rightarrow> GetOptions \<Rightarrow> 'w \<Rightarrow> (Pod option \<times> error option) \<times> 'w"
  Pods_Create :: "string \<Rightarrow> Pod option \<Rightarrow> 'w \<Rightarrow> (Pod option \<times> error option) \<times> 'w"
  Pods_Update :: "string \<Rightarrow> Pod option \<Rightarrow> 'w \<Rightarrow> (Pod option \<times> error option) \<times> 'w"
  Pods_Delete :: "string \<Rightarrow> string \<Rightarrow> DeleteOptions option \<Rightarrow> 'w \<Rightarrow> error option \<times> 'w"
  Pods_List :: "string \<Rightarrow> ListOptions \<Rightarrow> 'w \<Rightarrow> (PodList option \<times> error option) \<times> 'w"

subsection \<open>The provider\<close>

definition REMOTE_POD_ANNOTATION_NAME :: string where
  "REMOTE_POD_ANNOTATION_NAME = ''virtual-kube-type''"

definition REMOTE_POD_ANNOTATION_VALUE :: string where
  "REMOTE_POD_ANNOTATION_VALUE = ''poc''"

record PocProvider =
  nodeName :: string
  operatingSystem :: string
  internalIP :: string
  daemonEndpointPort :: "32 word"

text \<open>The loop of \<open>TranslateToRemotePod\<close> over \<open>pod.Spec.Containers\<close>: each round builds
  \<open>cntr\<close> from eight fields of \<open>c\<close> and appends it.\<close>

fun translate_containers :: "Container list \<Rightarrow> Container list \<Rightarrow> Container list" where
  "translate_containers containers [] = containers"
| "translate_containers containers (c # cs) =
     (let cntr = zero_Container
            \<lparr>Container.Name := Container.Name c,
             Image := Image c,
             Command := Command c,
             Args := Args c,
             Resources := Resources c,
             Ports := Ports c,
             Env := Env c,
             WorkingDir := WorkingDir c\<rparr>
      in translate_containers (containers @ [cntr]) cs)"

definition TranslateToRemotePod ::
  "'w Interface \<Rightarrow> Pod \<Rightarrow> 'w \<Rightarrow> (panic + (Pod option \<times> error option)) \<times> 'w" where
  "TranslateToRemotePod rc pod w =
     (case Pods_Get rc (Namespace (ObjectMeta pod)) (ObjectMeta.Name (ObjectMeta pod))
             zero_GetOptions w of
        ((rpod, _), w') \<Rightarrow>
          (case rpod of
             None \<Rightarrow> (Inl nil_pointer_dereference, w')
           | Some r \<Rightarrow>
               if length (ObjectMeta.Name (ObjectMeta r)) = 0
               then
                 (let annotations = Map.empty(REMOTE_POD_ANNOTATION_NAME \<mapsto> REMOTE_POD_ANNOTATION_VALUE);
                      containers = translate_containers [] (Containers (Spec pod));
                      rpod' = zero_Pod
                        \<lparr>TypeMeta := \<lparr>Kind = ''Pod'', APIVersion = ''v1''\<rparr>,
                         ObjectMeta := zero_ObjectMeta
                           \<lparr>Namespace := Namespace (ObjectMeta pod),
                            ObjectMeta.Name := ObjectMeta.Name (ObjectMeta pod),
                            Annotations := annotations\<rparr>,
                         Spec := zero_PodSpec
                           \<lparr>Volumes := [],
                            Containers := containers,
                            RestartPolicy := RestartPolicy (Spec pod)\<rparr>\<rparr>
                  in (Inr (Some rpod', None), w'))
               else (Inr (Some r, None), w')))"

text \<open>\<open>CreatePod\<close>: translate, then create remotely and return the create call's error.\<close>

definition CreatePod :: "'w Interface \<Rightarrow> Pod \<Rightarrow> 'w \<Rightarrow> (panic + error option) \<times> 'w" where
  "CreatePod rc pod w =
     (case TranslateToRemotePod rc pod w of
        (Inl p, w') \<Rightarrow> (Inl p, w')
      | (Inr (pd, Some err), w') \<Rightarrow> (Inr (Some err), w')
      | (Inr (pd, None), w') \<Rightarrow>
          (case Pods_Create rc (Namespace (ObjectMeta pod)) pd w' of
             ((rd, err), w'') \<Rightarrow> (Inr err, w'')))"

text \<open>
  \<open>UpdatePod\<close>, in two steps: \<open>UpdatePod_translated\<close> is the body after the call of
  \<open>TranslateToRemotePod\<close>, given what that call returned, and \<open>UpdatePod\<close> runs it on the
  translation of the pod.
\<close>

definition UpdatePod_translated ::
  "'w Interface \<Rightarrow> Pod \<Rightarrow> (panic + (Pod option \<times> error option)) \<times> 'w \<Rightarrow> (panic + error option) \<times> 'w" where
  "UpdatePod_translated rc pod t =
     (case t of
        (Inl p, w') \<Rightarrow> (Inl p, w')
      | (Inr (pd, Some err), w') \<Rightarrow> (Inr (Some err), w')
      | (Inr (pd, None), w') \<Rightarrow>
          (case Pods_Update rc (Namespace (ObjectMeta pod)) pd w' of
             ((_, err), w'') \<Rightarrow> (Inr None, w'')))"

definition UpdatePod :: "'w Interface \<Rightarrow> Pod \<Rightarrow> 'w \<Rightarrow> (panic + error option) \<times> 'w" where
  "UpdatePod rc pod w = UpdatePod_translated rc pod (TranslateToRemotePod rc pod w)"

definition DeletePod :: "'w Interface \<Rightarrow> Pod \<Rightarrow> 'w \<Rightarrow> error option \<times> 'w" where
  "DeletePod rc pod w =
     Pods_Delete rc (Namespace (ObjectMeta pod)) (ObjectMeta.Name (ObjectMeta pod))
       (Some zero_DeleteOptions) w"

definition GetPod ::
  "'w Interface \<Rightarrow> string \<Rightarrow> string \<Rightarrow> 'w \<Rightarrow> (Pod option \<times> error option) \<times> 'w" where
  "GetPod rc namespace name w =
     (case Pods_Get rc namespace name zero_GetOptions w of
        ((pod, err), w') \<Rightarrow>
          (case err of
             Some e \<Rightarrow> ((None, Some (NotFoundf_pod namespace name)), w')
           | None \<Rightarrow> ((pod, None), w')))"

definition GetPodStatus ::
  "'w Interface \<Rightarrow> string \<Rightarrow> string \<Rightarrow> 'w \<Rightarrow> (panic + (PodStatus option \<times> error option)) \<times> 'w" where
  "GetPodStatus rc namespace name w =
     (case Pods_Get rc namespace name zero_GetOptions w of
        ((pod, err), w') \<Rightarrow>
          (case err of
             Some e \<Rightarrow> (Inr (Some (zero_PodStatus\<lparr>Phase := PodUnknown\<rparr>), None), w')
           | None \<Rightarrow>
               (case pod of
                  None \<Rightarrow> (Inl nil_pointer_dereference, w')
                | Some p \<Rightarrow> (Inr (Some (Status p), None), w'))))"

subsection \<open>GetPods and the heap\<close>

text \<open>
  \<open>GetPods\<close> returns a slice of pointers, each the address of the loop variable \<open>pod\<close>.
  The heap holds the pod variables whose address is taken; an address is an index into
  \<open>cells\<close>. The range loop declares \<open>pod\<close> once for the whole loop (the repository
  predates per-iteration loop variables), assigns the next item to it in every round and
  appends its address.
\<close>

type_synonym addr = nat

record heap =
  cells :: "Pod list"

definition alloc :: "heap \<Rightarrow> Pod \<Rightarrow> addr \<times> heap" where
  "alloc h v = (length (cells h), h\<lparr>cells := cells h @ [v]\<rparr>)"

definition store :: "heap \<Rightarrow> addr \<Rightarrow> Pod \<Rightarrow> heap" where
  "store h a v = h\<lparr>cells := (cells h)[a := v]\<rparr>"

definition load :: "heap \<Rightarrow> addr \<Rightarrow> Pod option" where
  "load h a = (if a < length (cells h) then Some (cells h ! a) else None)"

fun GetPods_loop :: "addr \<Rightarrow> Pod list \<Rightarrow> addr list \<Rightarrow> heap \<Rightarrow> addr list \<times> heap" where
  "GetPods_loop pod_var [] result h = (result, h)"
| "GetPods_loop pod_var (item # items) result h =
     GetPods_loop pod_var items (result @ [pod_var]) (store h pod_var item)"

definition marker_selector :: string where
  "marker_selector = REMOTE_POD_ANNOTATION_NAME @ ''='' @ REMOTE_POD_ANNOTATION_VALUE"

definition GetPods ::
  "'w Interface \<Rightarrow> 'w \<Rightarrow> heap \<Rightarrow> (panic + (addr list \<times> error option)) \<times> 'w \<times> heap" where
  "GetPods rc w h =
     (case Pods_List rc [] (zero_ListOptions\<lparr>FieldSelector := marker_selector\<rparr>) w of
        ((list, err), w') \<Rightarrow>
          (case err of
             Some e \<Rightarrow> (Inr ([], Some e), w', h)
           | None \<Rightarrow>
               (case list of
                  None \<Rightarrow> (Inl nil_pointer_dereference, w', h)
                | Some l \<Rightarrow>
                    (case alloc h zero_Pod of
                       (pod_var, h') \<Rightarrow>
                         (case GetPods_loop pod_var (Items l) [] h' of
                            (result, h'') \<Rightarrow> (Inr (result, None), w', h''))))))"

subsection \<open>Capacity\<close>

definition Capacity :: "PocProvider \<Rightarrow> panic + ResourceList" where
  "Capacity p =
     (case MustParse ''100'' of
        Inl e \<Rightarrow> Inl e
      | Inr cpu \<Rightarrow>
          (case MustParse ''50Gi'' of
             Inl e \<Rightarrow> Inl e
           | Inr memory \<Rightarrow>
               (case MustParse ''100'' of
                  Inl e \<Rightarrow> Inl e
                | Inr pods \<Rightarrow>
                    Inr (Map.empty(''cpu'' \<mapsto> cpu, ''memory'' \<mapsto> memory, ''pods'' \<mapsto> pods)))))"

subsection \<open>The whitelist, as the specification words it\<close>

text \<open>
  The specification's translation of one container: the fields name, image, command, args,
  resources, ports, env and workingDir are the host container's, every other field has its
  zero value.
\<close>

definition whitelist_fields :: "Container \<Rightarrow> Container" where
  "whitelist_fields c =
     \<lparr>Container.Name = Container.Name c, Image = Image c, Command = Command c, Args = Args c,
      WorkingDir = WorkingDir c, Ports = Ports c, EnvFrom = [], Env = Env c,
      Resources = Resources c, VolumeMounts = [], VolumeDevices = [], LivenessProbe = None,
      ReadinessProbe = None, Lifecycle = None, TerminationMessagePath = [],
      TerminationMessagePolicy = [], ImagePullPolicy = [], SecurityContext = None,
      Stdin = False, StdinOnce = False, TTY = False\<rparr>"

subsection \<open>A scripted client and sample pods for concrete runs\<close>

text \<open>
  A client that answers every call with a fixed response and records the calls it
  receives; its state is the list of calls so far.
\<close>

datatype Call =
    GetCall string string GetOptions
  | CreateCall string "Pod option"
  | UpdateCall string "Pod option"
  | DeleteCall string string "DeleteOptions option"
  | ListCall string ListOptions

definition scripted_client ::
  "(Pod option \<times> error option) \<Rightarrow> (Pod option \<times> error option) \<Rightarrow> error option \<Rightarrow>
   (PodList option \<times> error option) \<Rightarrow> Call list Interface" where
  "scripted_client get_answer write_answer delete_answer list_answer =
     \<lparr>Pods_Get = (\<lambda>ns name opts w. (get_answer, w @ [GetCall ns name opts])),
      Pods_Create = (\<lambda>ns pod w. (write_answer, w @ [CreateCall ns pod])),
      Pods_Update = (\<lambda>ns pod w. (write_answer, w @ [UpdateCall ns pod])),
      Pods_Delete = (\<lambda>ns name opts w. (delete_answer, w @ [DeleteCall ns name opts])),
      Pods_List = (\<lambda>ns opts w. (list_answer, w @ [ListCall ns opts]))\<rparr>"

text \<open>The answer of the client when the pod is absent: an empty pod and a NotFound status.\<close>

definition absent_answer :: "Pod option \<times> error option" where
  "absent_answer = (Some zero_Pod, Some (StatusError ''NotFound'' ''pods web not found''))"

text \<open>The answer of a client that could not reach the remote cluster.\<close>

definition unreachable_answer :: "Pod option \<times> error option" where
  "unreachable_answer = (Some zero_Pod, Some (ClientError ''dial tcp: connection refused''))"

definition web_container :: Container where
  "web_container = zero_Container
     \<lparr>Container.Name := ''c'', Image := ''nginx'', Args := [''-g'', ''daemon off;''],
      VolumeMounts := [\<lparr>mount_Name = ''data'', ReadOnly = False, MountPath = ''/data'', SubPath = []\<rparr>],
      Lifecycle := Some \<lparr>PostStart = None, PreStop = Some ''sleep 5''\<rparr>,
      ImagePullPolicy := ''Always'',
      SecurityContext := Some \<lparr>Privileged = Some True, RunAsUser = None, RunAsNonRoot = None,
                                ReadOnlyRootFilesystem = None\<rparr>,
      TTY := True\<rparr>"

definition web_pod :: Pod where
  "web_pod = zero_Pod
     \<lparr>ObjectMeta := zero_ObjectMeta
        \<lparr>ObjectMeta.Name := ''web'', Namespace := ''default'',
         DeletionGracePeriodSeconds := Some 30\<rparr>,
      Spec := zero_PodSpec
        \<lparr>Volumes := [\<lparr>vol_Name = ''data'', VolumeSource = ''emptyDir''\<rparr>],
         Containers := [web_container],
         RestartPolicy := ''OnFailure'',
         TerminationGracePeriodSeconds := Some 30\<rparr>\<rparr>"

text \<open>A remote pod as the cluster stores it once created: the identity of \<open>web_pod\<close>,
  the marker, a node and a running status.\<close>

definition remote_web_pod :: Pod where
  "remote_web_pod = zero_Pod
     \<lparr>TypeMeta := \<lparr>Kind = ''Pod'', APIVersion = ''v1''\<rparr>,
      ObjectMeta := zero_ObjectMeta
        \<lparr>ObjectMeta.Name := ''web'', Namespace := ''default'', UID := ''1f0c'',
         Annotations := Map.empty(''virtual-kube-type'' \<mapsto> ''poc'')\<rparr>,
      Spec := zero_PodSpec\<lparr>NodeName := ''node-1'', RestartPolicy := ''OnFailure''\<rparr>,
      Status := zero_PodStatus\<lparr>Phase := ''Running'', PodIP := ''10.0.0.7''\<rparr>\<rparr>"

definition remote_db_pod :: Pod where
  "remote_db_pod = zero_Pod
     \<lparr>ObjectMeta := zero_ObjectMeta
        \<lparr>ObjectMeta.Name := ''db'', Namespace := ''default'',
         Annotations := Map.empty(''virtual-kube-type'' \<mapsto> ''poc'')\<rparr>,
      Status := zero_PodStatus\<lparr>Phase := ''Pending''\<rparr>\<rparr>"

section \<open>Properties\<close>

lemmas sample_defs = scripted_client_def absent_answer_def unreachable_answer_def
  web_pod_def web_container_def remote_web_pod_def remote_db_pod_def
  zero_Pod_def zero_ObjectMeta_def zero_PodSpec_def zero_PodStatus_def zero_TypeMeta_def
  zero_Container_def zero_ResourceRequirements_def

subsection \<open>TranslateToRemotePod\<close>

text \<open>The container loop appends, in order, the whitelisted copy of every host container.\<close>

lemma translate_containers_append:
  "translate_containers containers cs = containers @ map whitelist_fields cs"
proof (induction cs arbitrary: containers)
  case Nil
  show ?case by simp
next
  case (Cons c cs)
  have "zero_Container
            \<lparr>Container.Name := Container.Name c, Image := Image c, Command := Command c,
             Args := Args c, Resources := Resources c, Ports := Ports c, Env := Env c,
             WorkingDir := WorkingDir c\<rparr> = whitelist_fields c"
    by (simp add: zero_Container_def whitelist_fields_def)
  then show ?case using Cons.IH by (simp add: Let_def)
qed

text \<open>
  C1. When no remote pod of the host pod's namespace and name exists, that is, when the
  lookup gives back a pod whose name is empty, \<open>TranslateToRemotePod\<close> returns a pod built
  from the host pod alone: its annotations hold \<open>virtual-kube-type = poc\<close>, its volume list
  is empty, its namespace, name and restart policy are the host pod's, and its containers
  are the host pod's containers in order, each cut down to name, image, command, args,
  resources, ports, env and workingDir with every other field at its zero value.
\<close>

theorem TranslateToRemotePod_absent:
  assumes "Pods_Get rc (Namespace (ObjectMeta pod)) (ObjectMeta.Name (ObjectMeta pod))
             zero_GetOptions w = ((Some r, e), w')"
      and "ObjectMeta.Name (ObjectMeta r) = []"
  shows "\<exists>rpod. TranslateToRemotePod rc pod w = (Inr (Some rpod, None), w') \<and>
           Annotations (ObjectMeta rpod) ''virtual-kube-type'' = Some ''poc'' \<and>
           Volumes (Spec rpod) = [] \<and>
           Namespace (ObjectMeta rpod) = Namespace (ObjectMeta pod) \<and>
           ObjectMeta.Name (ObjectMeta rpod) = ObjectMeta.Name (ObjectMeta pod) \<and>
           RestartPolicy (Spec rpod) = RestartPolicy (Spec pod) \<and>
           Containers (Spec rpod) = map whitelist_fields (Containers (Spec pod))"
  using assms
  by (simp add: TranslateToRemotePod_def Let_def translate_containers_append
      REMOTE_POD_ANNOTATION_NAME_def REMOTE_POD_ANNOTATION_VALUE_def)

text \<open>
  C1 on \<open>web_pod\<close> with an absent remote pod: the volume, the volume mount, the lifecycle
  hook, the pull policy, the security context and the TTY flag of the host pod are gone.
\<close>

theorem TranslateToRemotePod_absent_witness:
  "\<exists>rpod. TranslateToRemotePod (scripted_client absent_answer absent_answer None (None, None)) web_pod []
             = (Inr (Some rpod, None), [GetCall ''default'' ''web'' zero_GetOptions]) \<and>
          Annotations (ObjectMeta rpod) ''virtual-kube-type'' = Some ''poc'' \<and>
          Volumes (Spec rpod) = [] \<and>
          Namespace (ObjectMeta rpod) = ''default'' \<and>
          ObjectMeta.Name (ObjectMeta rpod) = ''web'' \<and>
          RestartPolicy (Spec rpod) = ''OnFailure'' \<and>
          Containers (Spec rpod) =
            [zero_Container\<lparr>Container.Name := ''c'', Image := ''nginx'', Args := [''-g'', ''daemon off;'']\<rparr>]"
  using TranslateToRemotePod_absent [of "scripted_client absent_answer absent_answer None (None, None)"
      web_pod "[]" zero_Pod "Some (StatusError ''NotFound'' ''pods web not found'')"
      "[GetCall ''default'' ''web'' zero_GetOptions]"]
  by (simp add: sample_defs whitelist_fields_def)

text \<open>
  C2. When the lookup gives back a pod with a non-empty name, \<open>TranslateToRemotePod\<close>
  returns that pod as fetched, with a nil error. The result does not depend on anything of
  the host pod but its namespace and name, and translating again while the lookup still
  gives that pod returns it again.
\<close>

theorem TranslateToRemotePod_existing:
  assumes "Pods_Get rc (Namespace (ObjectMeta pod)) (ObjectMeta.Name (ObjectMeta pod))
             zero_GetOptions w = ((Some r, e), w')"
      and "ObjectMeta.Name (ObjectMeta r) \<noteq> []"
  shows "TranslateToRemotePod rc pod w = (Inr (Some r, None), w') \<and>
         (\<forall>pod'. Namespace (ObjectMeta pod') = Namespace (ObjectMeta pod) \<and>
                 ObjectMeta.Name (ObjectMeta pod') = ObjectMeta.Name (ObjectMeta pod) \<longrightarrow>
                 TranslateToRemotePod rc pod' w = (Inr (Some r, None), w')) \<and>
         (\<forall>e2 w2. Pods_Get rc (Namespace (ObjectMeta pod)) (ObjectMeta.Name (ObjectMeta pod))
                     zero_GetOptions w' = ((Some r, e2), w2) \<longrightarrow>
                  TranslateToRemotePod rc pod w' = (Inr (Some r, None), w2))"
  using assms by (simp add: TranslateToRemotePod_def)

text \<open>
  C2 on \<open>web_pod\<close> with \<open>remote_web_pod\<close> present: the remote pod comes back unchanged for
  the host pod, for a host pod of the same identity with another spec, and on a second
  translation.
\<close>

theorem TranslateToRemotePod_existing_witness:
  "TranslateToRemotePod (scripted_client (Some remote_web_pod, None) absent_answer None (None, None)) web_pod []
     = (Inr (Some remote_web_pod, None), [GetCall ''default'' ''web'' zero_GetOptions]) \<and>
   TranslateToRemotePod (scripted_client (Some remote_web_pod, None) absent_answer None (None, None))
       (web_pod\<lparr>Spec := zero_PodSpec\<rparr>) []
     = (Inr (Some remote_web_pod, None), [GetCall ''default'' ''web'' zero_GetOptions]) \<and>
   TranslateToRemotePod (scripted_client (Some remote_web_pod, None) absent_answer None (None, None)) web_pod
       [GetCall ''default'' ''web'' zero_GetOptions]
     = (Inr (Some remote_web_pod, None),
        [GetCall ''default'' ''web'' zero_GetOptions, GetCall ''default'' ''web'' zero_GetOptions])"
proof -
  let ?rc = "scripted_client (Some remote_web_pod, None) absent_answer None (None, None)"
  let ?w' = "[GetCall ''default'' ''web'' zero_GetOptions]"
  have g: "Pods_Get ?rc (Namespace (ObjectMeta web_pod)) (ObjectMeta.Name (ObjectMeta web_pod))
             zero_GetOptions [] = ((Some remote_web_pod, None), ?w')"
    by (simp add: sample_defs)
  have n: "ObjectMeta.Name (ObjectMeta remote_web_pod) \<noteq> []"
    by (simp add: sample_defs)
  note t = TranslateToRemotePod_existing [OF g n]
  have a: "TranslateToRemotePod ?rc web_pod [] = (Inr (Some remote_web_pod, None), ?w')"
    using t by blast
  have b: "TranslateToRemotePod ?rc (web_pod\<lparr>Spec := zero_PodSpec\<rparr>) [] = (Inr (Some remote_web_pod, None), ?w')"
  proof -
    have "Namespace (ObjectMeta (web_pod\<lparr>Spec := zero_PodSpec\<rparr>)) = Namespace (ObjectMeta web_pod) \<and>
          ObjectMeta.Name (ObjectMeta (web_pod\<lparr>Spec := zero_PodSpec\<rparr>)) = ObjectMeta.Name (ObjectMeta web_pod)"
      by simp
    with t show ?thesis by blast
  qed
  have g2: "Pods_Get ?rc (Namespace (ObjectMeta web_pod)) (ObjectMeta.Name (ObjectMeta web_pod))
             zero_GetOptions ?w' = ((Some remote_web_pod, None), ?w' @ ?w')"
    by (simp add: sample_defs)
  have c: "TranslateToRemotePod ?rc web_pod ?w' = (Inr (Some remote_web_pod, None), ?w' @ ?w')"
    using t g2 by blast
  show ?thesis using a b c by simp
qed

text \<open>
  C3 as worded does not hold: the absent pod's lookup returns a NotFound status error, and
  \<open>TranslateToRemotePod\<close> returns a nil error, not that error.
\<close>

theorem TranslateToRemotePod_error_counterexample:
  "snd (fst (Pods_Get (scripted_client absent_answer absent_answer None (None, None))
               (Namespace (ObjectMeta web_pod)) (ObjectMeta.Name (ObjectMeta web_pod))
               zero_GetOptions []))
     = Some (StatusError ''NotFound'' ''pods web not found'') \<and>
   map_sum id snd (fst (TranslateToRemotePod
               (scripted_client absent_answer absent_answer None (None, None)) web_pod []))
     = Inr None"
  by (simp add: TranslateToRemotePod_def Let_def sample_defs)

text \<open>
  C3, amended. \<open>TranslateToRemotePod\<close> drops the error of the lookup: it never returns a
  non-nil error, and whenever the lookup gives back a non-nil pod pointer, with or without
  an error, it returns a pod and a nil error.
\<close>

theorem TranslateToRemotePod_nil_error:
  "(\<forall>p err. fst (TranslateToRemotePod rc pod w) \<noteq> Inr (p, Some err)) \<and>
   (fst (fst (Pods_Get rc (Namespace (ObjectMeta pod)) (ObjectMeta.Name (ObjectMeta pod))
                zero_GetOptions w)) \<noteq> None \<longrightarrow>
      (\<exists>rpod. fst (TranslateToRemotePod rc pod w) = Inr (Some rpod, None)))"
  by (auto simp add: TranslateToRemotePod_def Let_def split: prod.splits option.splits)

text \<open>C3, amended, on a client that cannot reach the remote cluster.\<close>

theorem TranslateToRemotePod_nil_error_witness:
  "fst (fst (Pods_Get (scripted_client unreachable_answer absent_answer None (None, None))
               (Namespace (ObjectMeta web_pod)) (ObjectMeta.Name (ObjectMeta web_pod))
               zero_GetOptions [])) \<noteq> None \<and>
   (\<exists>rpod. fst (TranslateToRemotePod (scripted_client unreachable_answer absent_answer None (None, None))
                  web_pod []) = Inr (Some rpod, None))"
proof -
  let ?rc = "scripted_client unreachable_answer absent_answer None (None, None)"
  have h: "fst (fst (Pods_Get ?rc (Namespace (ObjectMeta web_pod)) (ObjectMeta.Name (ObjectMeta web_pod))
               zero_GetOptions [])) \<noteq> None"
    by (simp add: scripted_client_def unreachable_answer_def)
  from TranslateToRemotePod_nil_error [of ?rc web_pod "[]"] h show ?thesis by blast
qed

subsection \<open>GetPod and GetPodStatus\<close>




text \<open>
  C5. When the lookup fails with the NotFound status, \<open>GetPodStatus\<close> returns a status
  whose phase is Unknown (and nothing else set) together with a nil error, where \<open>GetPod\<close>
  on the same lookup returns an error.
\<close>

theorem GetPodStatus_not_found:
  assumes "Pods_Get rc namespace name zero_GetOptions w = ((r, Some (StatusError ''NotFound'' m)), w')"
  shows "\<exists>status. GetPodStatus rc namespace name w = (Inr (Some status, None), w') \<and>
           Phase status = ''Unknown'' \<and> status = zero_PodStatus\<lparr>Phase := PodUnknown\<rparr> \<and>
           GetPod rc namespace name w = ((None, Some (NotFoundf_pod namespace name)), w')"
  using assms by (simp add: GetPodStatus_def GetPod_def PodUnknown_def)

text \<open>C5 on the lookup of the absent pod \<open>default/missing\<close>.\<close>

theorem GetPodStatus_not_found_witness:
  "\<exists>status. GetPodStatus (scripted_client absent_answer absent_answer None (None, None))
                ''default'' ''missing'' []
              = (Inr (Some status, None), [GetCall ''default'' ''missing'' zero_GetOptions]) \<and>
            Phase status = ''Unknown'' \<and> status = zero_PodStatus\<lparr>Phase := PodUnknown\<rparr> \<and>
            GetPod (scripted_client absent_answer absent_answer None (None, None))
                ''default'' ''missing'' []
              = ((None, Some (NotFoundf_pod ''default'' ''missing'')),
                 [GetCall ''default'' ''missing'' zero_GetOptions])"
proof -
  let ?rc = "scripted_client absent_answer absent_answer None (None, None)"
  have g: "Pods_Get ?rc ''default'' ''missing'' zero_GetOptions []
             = ((Some zero_Pod, Some (StatusError ''NotFound'' ''pods web not found'')),
                [GetCall ''default'' ''missing'' zero_GetOptions])"
    by (simp add: scripted_client_def absent_answer_def)
  from GetPodStatus_not_found [OF g] show ?thesis .
qed

text \<open>
  C10. \<open>GetPod\<close> and \<open>GetPodStatus\<close> look only at whether the lookup returned an error:
  whatever the error is, \<open>GetPod\<close> returns the NotFound error for the namespace and name and
  \<open>GetPodStatus\<close> returns the phase-Unknown status with a nil error. So two lookups of the
  same namespace and name that fail with any two errors give the caller the same results.
\<close>

theorem lookup_failures_collapse:
  "(Pods_Get rc namespace name zero_GetOptions w = ((r, Some e), w') \<longrightarrow>
      GetPod rc namespace name w = ((None, Some (NotFoundf_pod namespace name)), w') \<and>
      GetPodStatus rc namespace name w = (Inr (Some (zero_PodStatus\<lparr>Phase := PodUnknown\<rparr>), None), w')) \<and>
   (Pods_Get rc1 namespace name zero_GetOptions w1 = ((r1, Some e1), w1') \<and>
    Pods_Get rc2 namespace name zero_GetOptions w2 = ((r2, Some e2), w2') \<longrightarrow>
      fst (GetPod rc1 namespace name w1) = fst (GetPod rc2 namespace name w2) \<and>
      fst (GetPodStatus rc1 namespace name w1) = fst (GetPodStatus rc2 namespace name w2))"
  by (simp add: GetPod_def GetPodStatus_def)

text \<open>C10 on an unreachable remote cluster, compared with an absent pod.\<close>

theorem lookup_failures_collapse_witness:
  "GetPod (scripted_client unreachable_answer absent_answer None (None, None)) ''default'' ''web'' []
     = ((None, Some (notFoundError ''pod default/web is not found'')),
        [GetCall ''default'' ''web'' zero_GetOptions]) \<and>
   GetPodStatus (scripted_client unreachable_answer absent_answer None (None, None)) ''default'' ''web'' []
     = (Inr (Some (zero_PodStatus\<lparr>Phase := ''Unknown''\<rparr>), None),
        [GetCall ''default'' ''web'' zero_GetOptions]) \<and>
   fst (GetPod (scripted_client unreachable_answer absent_answer None (None, None)) ''default'' ''web'' [])
     = fst (GetPod (scripted_client absent_answer absent_answer None (None, None)) ''default'' ''web'' []) \<and>
   fst (GetPodStatus (scripted_client unreachable_answer absent_answer None (None, None)) ''default'' ''web'' [])
     = fst (GetPodStatus (scripted_client absent_answer absent_answer None (None, None)) ''default'' ''web'' [])"
proof -
  let ?rc1 = "scripted_client unreachable_answer absent_answer None (None, None)"
  let ?rc2 = "scripted_client absent_answer absent_answer None (None, None)"
  let ?w' = "[GetCall ''default'' ''web'' zero_GetOptions]"
  have g1: "Pods_Get ?rc1 ''default'' ''web'' zero_GetOptions []
              = ((Some zero_Pod, Some (ClientError ''dial tcp: connection refused'')), ?w')"
    by (simp add: scripted_client_def unreachable_answer_def)
  have g2: "Pods_Get ?rc2 ''default'' ''web'' zero_GetOptions []
              = ((Some zero_Pod, Some (StatusError ''NotFound'' ''pods web not found'')), ?w')"
    by (simp add: scripted_client_def absent_answer_def)
  note t = lookup_failures_collapse [of ?rc1 "''default''" "''web''" "[]" "Some zero_Pod"
      "ClientError ''dial tcp: connection refused''" ?w'
      ?rc1 "[]" "Some zero_Pod" "ClientError ''dial tcp: connection refused''" ?w'
      ?rc2 "[]" "Some zero_Pod" "StatusError ''NotFound'' ''pods web not found''" ?w']
  have a: "GetPod ?rc1 ''default'' ''web'' [] = ((None, Some (NotFoundf_pod ''default'' ''web'')), ?w')"
    using t g1 by blast
  have b: "GetPodStatus ?rc1 ''default'' ''web'' []
             = (Inr (Some (zero_PodStatus\<lparr>Phase := PodUnknown\<rparr>), None), ?w')"
    using t g1 by blast
  have c: "fst (GetPod ?rc1 ''default'' ''web'' []) = fst (GetPod ?rc2 ''default'' ''web'' [])"
    using t g1 g2 by blast
  have d: "fst (GetPodStatus ?rc1 ''default'' ''web'' []) = fst (GetPodStatus ?rc2 ''default'' ''web'' [])"
    using t g1 g2 by blast
  have m: "NotFoundf_pod ''default'' ''web'' = notFoundError ''pod default/web is not found''"
    by (simp add: NotFoundf_pod_def)
  from a b c d show ?thesis unfolding m PodUnknown_def by simp
qed

subsection \<open>UpdatePod and DeletePod\<close>

text \<open>
  C6. \<open>UpdatePod\<close> runs the rest of its body on what \<open>TranslateToRemotePod\<close> returned. If
  that is an error, \<open>UpdatePod\<close> returns this error and issues no remote call. If that is a
  pod with a nil error, \<open>UpdatePod\<close> issues the remote update and returns a nil error,
  whatever the update returned.
\<close>

theorem UpdatePod_errors:
  "UpdatePod rc pod w = UpdatePod_translated rc pod (TranslateToRemotePod rc pod w) \<and>
   (\<forall>pd err w1. UpdatePod_translated rc pod (Inr (pd, Some err), w1) = (Inr (Some err), w1)) \<and>
   (\<forall>pd w1 r uerr w2.
      Pods_Update rc (Namespace (ObjectMeta pod)) pd w1 = ((r, uerr), w2) \<longrightarrow>
      UpdatePod_translated rc pod (Inr (pd, None), w1) = (Inr None, w2)) \<and>
   (\<forall>pd w1 r uerr w2.
      TranslateToRemotePod rc pod w = (Inr (pd, None), w1) \<and>
      Pods_Update rc (Namespace (ObjectMeta pod)) pd w1 = ((r, uerr), w2) \<longrightarrow>
      UpdatePod rc pod w = (Inr None, w2))"
  by (simp add: UpdatePod_def UpdatePod_translated_def)

text \<open>
  C6 on \<open>web_pod\<close> with a remote update that fails with a conflict: the update is issued and
  \<open>UpdatePod\<close> returns a nil error; and on a translation that returned an error.
\<close>

theorem UpdatePod_errors_witness:
  "UpdatePod (scripted_client (Some remote_web_pod, None) (None, Some (StatusError ''Conflict'' ''object has been modified''))
       None (None, None)) web_pod []
     = (Inr None, [GetCall ''default'' ''web'' zero_GetOptions, UpdateCall ''default'' (Some remote_web_pod)]) \<and>
   snd (fst (Pods_Update (scripted_client (Some remote_web_pod, None)
                 (None, Some (StatusError ''Conflict'' ''object has been modified'')) None (None, None))
               ''default'' (Some remote_web_pod) [GetCall ''default'' ''web'' zero_GetOptions]))
     = Some (StatusError ''Conflict'' ''object has been modified'') \<and>
   UpdatePod_translated (scripted_client (Some remote_web_pod, None)
                 (None, Some (StatusError ''Conflict'' ''object has been modified'')) None (None, None))
       web_pod (Inr (None, Some (ClientError ''dial tcp: connection refused'')), [])
     = (Inr (Some (ClientError ''dial tcp: connection refused'')), [])"
proof -
  let ?rc = "scripted_client (Some remote_web_pod, None)
               (None, Some (StatusError ''Conflict'' ''object has been modified'')) None (None, None)"
  let ?w1 = "[GetCall ''default'' ''web'' zero_GetOptions]"
  let ?w2 = "[GetCall ''default'' ''web'' zero_GetOptions, UpdateCall ''default'' (Some remote_web_pod)]"
  have t: "TranslateToRemotePod ?rc web_pod [] = (Inr (Some remote_web_pod, None), ?w1)"
    by (simp add: TranslateToRemotePod_def sample_defs)
  have u: "Pods_Update ?rc (Namespace (ObjectMeta web_pod)) (Some remote_web_pod) ?w1
             = ((None, Some (StatusError ''Conflict'' ''object has been modified'')), ?w2)"
    by (simp add: sample_defs)
  have n: "Namespace (ObjectMeta web_pod) = ''default''" by (simp add: sample_defs)
  note upd = UpdatePod_errors [of ?rc web_pod "[]"]
  from upd t u have a: "UpdatePod ?rc web_pod [] = (Inr None, ?w2)"
    by blast
  from upd have b: "UpdatePod_translated ?rc web_pod
                      (Inr (None, Some (ClientError ''dial tcp: connection refused'')), [])
                    = (Inr (Some (ClientError ''dial tcp: connection refused'')), [])"
    by blast
  from a b u n show ?thesis by simp
qed

text \<open>
  C8 as worded does not hold: \<open>web_pod\<close> carries a grace period of 30 seconds, in its
  metadata and in its spec, and the delete options that \<open>DeletePod\<close> hands to the remote
  delete carry none.
\<close>

theorem DeletePod_options_counterexample:
  "DeletionGracePeriodSeconds (ObjectMeta web_pod) = Some 30 \<and>
   TerminationGracePeriodSeconds (Spec web_pod) = Some 30 \<and>
   DeletePod (scripted_client absent_answer absent_answer None (None, None)) web_pod []
     = (None, [DeleteCall ''default'' ''web''
                 (Some \<lparr>GracePeriodSeconds = None, Preconditions = None, OrphanDependents = None,
                        PropagationPolicy = None\<rparr>)])"
  by (simp add: DeletePod_def zero_DeleteOptions_def sample_defs)

text \<open>
  C8, amended. \<open>DeletePod\<close> is the remote delete for the pod's namespace and name with
  delete options that are always empty; it returns what the remote delete returns.
\<close>

theorem DeletePod_fixed_options:
  "DeletePod rc pod w =
     Pods_Delete rc (Namespace (ObjectMeta pod)) (ObjectMeta.Name (ObjectMeta pod))
       (Some \<lparr>GracePeriodSeconds = None, Preconditions = None, OrphanDependents = None,
              PropagationPolicy = None\<rparr>) w"
  by (simp add: DeletePod_def zero_DeleteOptions_def)

subsection \<open>GetPods\<close>

lemma store_store: "store (store h a x) a y = store h a y"
  by (simp add: store_def)

text \<open>The loop appends the one address of the loop variable once per item, and leaves the
  last item in it.\<close>

lemma GetPods_loop_alias:
  "GetPods_loop a items result h =
     (result @ replicate (length items) a, if items = [] then h else store h a (last items))"
proof (induction items arbitrary: result h)
  case Nil
  show ?case by simp
next
  case (Cons item items)
  show ?case
    by (simp add: Cons.IH store_store replicate_append_same flip: replicate_app_Cons_same)
qed

lemma GetPods_every_element_is_last:
  assumes "Pods_List rc [] (zero_ListOptions\<lparr>FieldSelector := marker_selector\<rparr>) w = ((Some l, None), w')"
      and "Items l \<noteq> []"
  shows "\<exists>a h'. GetPods rc w h = (Inr (replicate (length (Items l)) a, None), w', h') \<and>
           load h' a = Some (last (Items l))"
  using assms
  by (simp add: GetPods_def alloc_def GetPods_loop_alias load_def store_def)

text \<open>
  C7 at a list of two pods. \<open>GetPods\<close> lists all namespaces with the field selector
  \<open>virtual-kube-type=poc\<close>, and for the received items \<open>remote_web_pod\<close>, \<open>remote_db_pod\<close> it
  returns the address 0 twice; the variable at that address holds \<open>remote_db_pod\<close>. The
  returned elements read as \<open>remote_db_pod\<close>, \<open>remote_db_pod\<close>, not as the received list.
\<close>

theorem GetPods_aliases_loop_variable:
  "GetPods (scripted_client absent_answer absent_answer None
              (Some \<lparr>list_ResourceVersion = [], Items = [remote_web_pod, remote_db_pod]\<rparr>, None))
           [] \<lparr>cells = []\<rparr>
     = (Inr ([0, 0], None),
        [ListCall [] (zero_ListOptions\<lparr>FieldSelector := ''virtual-kube-type=poc''\<rparr>)],
        \<lparr>cells = [remote_db_pod]\<rparr>) \<and>
   map (load \<lparr>cells = [remote_db_pod]\<rparr>) [0, 0] = [Some remote_db_pod, Some remote_db_pod] \<and>
   map Some [remote_web_pod, remote_db_pod] \<noteq> [Some remote_db_pod, Some remote_db_pod]"
  by (simp add: GetPods_def alloc_def store_def load_def marker_selector_def
      REMOTE_POD_ANNOTATION_NAME_def REMOTE_POD_ANNOTATION_VALUE_def scripted_client_def
      remote_web_pod_def remote_db_pod_def zero_Pod_def zero_ObjectMeta_def)

subsection \<open>Capacity\<close>

lemma MustParse_100: "MustParse ''100'' = Inr \<lparr>q_value = 100, q_format = DecimalSI\<rparr>"
  by (simp add: MustParse_def digit_val_def suffix_scale_def)

lemma MustParse_50Gi: "MustParse ''50Gi'' = Inr \<lparr>q_value = 53687091200, q_format = BinarySI\<rparr>"
  by (simp add: MustParse_def digit_val_def suffix_scale_def)

text \<open>
  C9. For every provider, \<open>Capacity\<close> returns the resource list with exactly the three
  entries cpu = 100, memory = 50Gi (50 * 2^30 bytes) and pods = 100. The remote client and
  the state of the remote cluster are no input of \<open>Capacity\<close>.
\<close>

theorem Capacity_fixed:
  "Capacity p = Inr (Map.empty
      (''cpu'' \<mapsto> \<lparr>q_value = 100, q_format = DecimalSI\<rparr>,
       ''memory'' \<mapsto> \<lparr>q_value = 50 * 2 ^ 30, q_format = BinarySI\<rparr>,
       ''pods'' \<mapsto> \<lparr>q_value = 100, q_format = DecimalSI\<rparr>))"
  by (simp add: Capacity_def MustParse_100 MustParse_50Gi)

end
